theory Spec2Isabelle
  imports Complex_Main
begin

section \<open>Values, events and outcomes\<close>

text \<open>
  \<^verbatim>\<open>servo_basic.py\<close> is dynamically typed: \<^verbatim>\<open>servo_sweep\<close> is written to
  receive integers and floats (its checks \<^verbatim>\<open>x != int(x)\<close> only make sense for a
  float). A number is an \<^verbatim>\<open>int\<close> or a finite \<^verbatim>\<open>float\<close>; a finite float is
  represented by the rational it denotes. Every operation the function performs on a
  float before it could round (comparison with an int, \<^verbatim>\<open>int()\<close>, and \<^verbatim>\<open>-\<close>,
  \<^verbatim>\<open>+ 1\<close>, \<^verbatim>\<open>abs\<close> on angles that already passed the whole-number check in
  0..180) is exact, so the rational is exact too. NaN, infinities and values that are
  not numbers are outside the model.
\<close>

datatype pynum = PyInt int | PyFloat rat

datatype pyerror = TypeError | ValueError

text \<open>One piece of a printed line: literal text, or an interpolated value of an f-string.\<close>

datatype piece = Lit string | Val pynum

type_synonym line = "piece list"

text \<open>
  What the program does to the outside: a line on the serial console, an assignment
  to \<^verbatim>\<open>servo_a.angle\<close>, a call of \<^verbatim>\<open>sleep\<close>.
\<close>

datatype event = Print line | SetAngle int | Sleep pynum

datatype outcome = Returned | Raised pyerror

type_synonym run = "event list \<times> outcome"

subsection \<open>Python's arithmetic on numbers\<close>

fun val :: "pynum \<Rightarrow> rat" where
  "val (PyInt i) = of_int i"
| "val (PyFloat q) = q"

fun is_float :: "pynum \<Rightarrow> bool" where
  "is_float (PyInt i) = False"
| "is_float (PyFloat q) = True"

text \<open>\<^verbatim>\<open>int(x)\<close>: the identity on an int, truncation towards zero on a float.\<close>

fun py_int :: "pynum \<Rightarrow> int" where
  "py_int (PyInt i) = i"
| "py_int (PyFloat q) = (if 0 \<le> q then \<lfloor>q\<rfloor> else \<lceil>q\<rceil>)"

text \<open>Comparisons between ints and floats compare the mathematical values.\<close>

definition py_ne :: "pynum \<Rightarrow> pynum \<Rightarrow> bool" where
  "py_ne a b = (val a \<noteq> val b)"

definition py_lt :: "pynum \<Rightarrow> pynum \<Rightarrow> bool" where
  "py_lt a b = (val a < val b)"

definition py_gt :: "pynum \<Rightarrow> pynum \<Rightarrow> bool" where
  "py_gt a b = (val a > val b)"

text \<open>The result of an operator is an int only when both operands are.\<close>

fun py_sub :: "pynum \<Rightarrow> pynum \<Rightarrow> pynum" where
  "py_sub (PyInt a) (PyInt b) = PyInt (a - b)"
| "py_sub a b = PyFloat (val a - val b)"

fun py_add :: "pynum \<Rightarrow> pynum \<Rightarrow> pynum" where
  "py_add (PyInt a) (PyInt b) = PyInt (a + b)"
| "py_add a b = PyFloat (val a + val b)"

fun py_abs :: "pynum \<Rightarrow> pynum" where
  "py_abs (PyInt a) = PyInt \<bar>a\<bar>"
| "py_abs (PyFloat q) = PyFloat \<bar>q\<bar>"

fun py_neg :: "pynum \<Rightarrow> pynum" where
  "py_neg (PyInt a) = PyInt (- a)"
| "py_neg (PyFloat q) = PyFloat (- q)"

subsection \<open>\<^verbatim>\<open>range\<close>\<close>

text \<open>
  \<^verbatim>\<open>range(start, stop, step)\<close> with a positive step counts up from \<^verbatim>\<open>start\<close>
  while below \<^verbatim>\<open>stop\<close>; with a negative step it counts down while above
  \<^verbatim>\<open>stop\<close>.
\<close>

function range_up :: "int \<Rightarrow> int \<Rightarrow> int \<Rightarrow> int list" where
  "range_up i stop step =
     (if 0 < step \<and> i < stop then i # range_up (i + step) stop step else [])"
  by pat_completeness auto
termination
  by (relation "measure (\<lambda>(i, stop, step). nat (stop - i))") auto

function range_down :: "int \<Rightarrow> int \<Rightarrow> int \<Rightarrow> int list" where
  "range_down i stop step =
     (if step < 0 \<and> stop < i then i # range_down (i + step) stop step else [])"
  by pat_completeness auto
termination
  by (relation "measure (\<lambda>(i, stop, step). nat (i - stop))") auto

declare range_up.simps [simp del]
declare range_down.simps [simp del]

text \<open>An argument of \<^verbatim>\<open>range\<close> must be an int: a float is a TypeError, also \<^verbatim>\<open>90.0\<close>.\<close>

fun as_index :: "pynum \<Rightarrow> pyerror + int" where
  "as_index (PyInt i) = Inr i"
| "as_index (PyFloat q) = Inl TypeError"

definition py_range :: "pynum \<Rightarrow> pynum \<Rightarrow> pynum \<Rightarrow> pyerror + int list" where
  "py_range start stop step =
     (case as_index start of Inl e \<Rightarrow> Inl e | Inr a \<Rightarrow>
      case as_index stop of Inl e \<Rightarrow> Inl e | Inr b \<Rightarrow>
      case as_index step of Inl e \<Rightarrow> Inl e | Inr c \<Rightarrow>
        if c = 0 then Inl ValueError
        else if 0 < c then Inr (range_up a b c)
        else Inr (range_down a b c))"

section \<open>The program\<close>

subsection \<open>\<^verbatim>\<open>basic_operations\<close>\<close>

text \<open>The parameter \<open>DEBUG\<close> is the module's global constant of that name.\<close>

definition say :: "bool \<Rightarrow> line \<Rightarrow> event list" where
  "say DEBUG l = (if DEBUG then [Print l] else [])"

definition basic_operations :: "bool \<Rightarrow> event list" where
  "basic_operations DEBUG =
     say DEBUG [Lit ''Setting angle to 90 degrees.''] @ [SetAngle 90, Sleep (PyInt 5)] @
     say DEBUG [Lit ''Setting angle to 0 degrees.''] @ [SetAngle 0, Sleep (PyInt 5)] @
     say DEBUG [Lit ''Setting angle to 90 degrees.''] @ [SetAngle 90, Sleep (PyInt 5)] @
     say DEBUG [Lit ''Setting angle to 180 degrees.''] @ [SetAngle 180, Sleep (PyInt 5)]"

subsection \<open>\<^verbatim>\<open>servo_sweep\<close>\<close>

definition error_line :: "string \<Rightarrow> pynum \<Rightarrow> line" where
  "error_line name v = [Lit (''ERROR: The '' @ name @ '' value of ''), Val v, Lit '' is invalid.'']"

definition sweep_line :: "pynum \<Rightarrow> pynum \<Rightarrow> pynum \<Rightarrow> pynum \<Rightarrow> line" where
  "sweep_line start_angle stop_angle step_angle step_time =
     [Lit ''Sweeping angle from '', Val start_angle, Lit '' to '', Val stop_angle,
      Lit '' degrees in increments of '', Val step_angle, Lit '' degree(s) with a '',
      Val step_time, Lit '' s step time.'']"

definition setting_line :: "int \<Rightarrow> line" where
  "setting_line angle = [Lit ''Setting angle to '', Val (PyInt angle), Lit '' degrees.'']"

text \<open>The body of both \<^verbatim>\<open>for\<close> loops, run over the angles of the range.\<close>

fun sweep_loop :: "bool \<Rightarrow> pynum \<Rightarrow> int list \<Rightarrow> event list" where
  "sweep_loop DEBUG step_time [] = []"
| "sweep_loop DEBUG step_time (angle # angles) =
     say DEBUG (setting_line angle) @ [SetAngle angle, Sleep step_time] @
     sweep_loop DEBUG step_time angles"

text \<open>
  The \<^verbatim>\<open>range\<close> object is built before the first iteration, so a TypeError of
  \<^verbatim>\<open>range\<close> leaves the loop body unexecuted.
\<close>

definition run_loop :: "bool \<Rightarrow> pynum \<Rightarrow> event list \<Rightarrow> pyerror + int list \<Rightarrow> run" where
  "run_loop DEBUG step_time sofar r =
     (case r of
        Inl e \<Rightarrow> (sofar, Raised e)
      | Inr angles \<Rightarrow> (sofar @ sweep_loop DEBUG step_time angles, Returned))"

definition servo_sweep :: "bool \<Rightarrow> pynum \<Rightarrow> pynum \<Rightarrow> pynum \<Rightarrow> pynum \<Rightarrow> run" where
  "servo_sweep DEBUG start_angle stop_angle step_angle step_time =
     (if py_ne start_angle (PyInt (py_int start_angle)) \<or> py_lt start_angle (PyInt 0)
          \<or> py_gt start_angle (PyInt 180)
      then ([Print (error_line ''start_angle'' start_angle)], Returned)
      else if py_ne stop_angle (PyInt (py_int stop_angle)) \<or> py_lt stop_angle (PyInt 0)
          \<or> py_gt stop_angle (PyInt 180)
      then ([Print (error_line ''stop_angle'' stop_angle)], Returned)
      else if py_ne step_angle (PyInt (py_int step_angle)) \<or> py_lt step_angle (PyInt 1)
          \<or> py_gt step_angle (py_abs (py_sub stop_angle start_angle))
      then ([Print (error_line ''step_angle'' step_angle)], Returned)
      else if py_lt step_time (PyInt 0)
      then ([Print (error_line ''step_time'' step_time)], Returned)
      else if py_lt start_angle stop_angle
      then run_loop DEBUG step_time
             (say DEBUG (sweep_line start_angle stop_angle step_angle step_time))
             (py_range start_angle (py_add stop_angle (PyInt 1)) step_angle)
      else run_loop DEBUG step_time
             (say DEBUG (sweep_line start_angle stop_angle step_angle step_time))
             (py_range start_angle (py_sub stop_angle (PyInt 1)) (py_neg step_angle)))"

text \<open>The defaults of the optional parameters; \<^verbatim>\<open>0.015\<close> is the double of that literal.\<close>

definition default_step_angle :: pynum where
  "default_step_angle = PyInt 1"

definition default_step_time :: pynum where
  "default_step_time = PyFloat (1080863910568919 / 72057594037927936)"

subsection \<open>\<^verbatim>\<open>sweep_operations\<close> and \<^verbatim>\<open>main\<close>\<close>

text \<open>Sequencing: an exception of the first part skips the rest.\<close>

definition then_do :: "run \<Rightarrow> run \<Rightarrow> run" where
  "then_do p q = (case snd p of Returned \<Rightarrow> (fst p @ fst q, snd q) | Raised e \<Rightarrow> p)"

definition sleep5 :: run where
  "sleep5 = ([Sleep (PyInt 5)], Returned)"

definition sweep_operations :: "bool \<Rightarrow> run" where
  "sweep_operations DEBUG =
     then_do (servo_sweep DEBUG (PyInt 0) (PyInt 180) default_step_angle default_step_time)
    (then_do sleep5
    (then_do (servo_sweep DEBUG (PyInt 180) (PyInt 0) default_step_angle default_step_time)
    (then_do sleep5
    (then_do (servo_sweep DEBUG (PyInt 45) (PyInt 135) (PyInt 15) (PyInt 1))
    (then_do sleep5
    (then_do (servo_sweep DEBUG (PyInt 180) (PyInt 0) (PyInt 45) (PyInt 1))
     sleep5))))))"

text \<open>
  \<^verbatim>\<open>main\<close> is \<^verbatim>\<open>while True: basic_operations()\<close>: it never returns. Its events
  after \<open>n\<close> rounds of the loop:
\<close>

fun main_rounds :: "nat \<Rightarrow> bool \<Rightarrow> event list" where
  "main_rounds 0 DEBUG = []"
| "main_rounds (Suc n) DEBUG = basic_operations DEBUG @ main_rounds n DEBUG"

subsection \<open>Reading a trace\<close>

fun commanded :: "event list \<Rightarrow> int list" where
  "commanded [] = []"
| "commanded (SetAngle a # es) = a # commanded es"
| "commanded (e # es) = commanded es"

fun printed :: "event list \<Rightarrow> line list" where
  "printed [] = []"
| "printed (Print l # es) = l # printed es"
| "printed (e # es) = printed es"

fun actions :: "event list \<Rightarrow> event list" where
  "actions [] = []"
| "actions (Print l # es) = actions es"
| "actions (e # es) = e # actions es"

text \<open>A command of each angle followed by one sleep of the step time, and nothing else.\<close>

fun paced :: "pynum \<Rightarrow> int list \<Rightarrow> event list" where
  "paced t [] = []"
| "paced t (a # as) = SetAngle a # Sleep t # paced t as"

section \<open>The request as the specification describes it\<close>

text \<open>
  The specification gives each field of a sweep request a domain: the two angles are
  whole numbers of degrees in 0..180, the step is a whole number from 1 to the distance
  between the angles, the delay is not negative. These definitions follow its words, not
  the code; \<open>spec_first_invalid\<close> is the first field outside its domain in the order
  start, stop, step, delay, with the name the code prints for it.
\<close>

definition whole :: "rat \<Rightarrow> bool" where
  "whole q = (of_int \<lfloor>q\<rfloor> = q)"

definition spec_angle_ok :: "pynum \<Rightarrow> bool" where
  "spec_angle_ok a = (whole (val a) \<and> 0 \<le> val a \<and> val a \<le> 180)"

definition spec_step_ok :: "pynum \<Rightarrow> pynum \<Rightarrow> pynum \<Rightarrow> bool" where
  "spec_step_ok start stop step =
     (whole (val step) \<and> 1 \<le> val step \<and> val step \<le> \<bar>val stop - val start\<bar>)"

definition spec_delay_ok :: "pynum \<Rightarrow> bool" where
  "spec_delay_ok t = (0 \<le> val t)"

definition spec_first_invalid ::
  "pynum \<Rightarrow> pynum \<Rightarrow> pynum \<Rightarrow> pynum \<Rightarrow> (string \<times> pynum) option" where
  "spec_first_invalid start stop step delay =
     (if \<not> spec_angle_ok start then Some (''start_angle'', start)
      else if \<not> spec_angle_ok stop then Some (''stop_angle'', stop)
      else if \<not> spec_step_ok start stop step then Some (''step_angle'', step)
      else if \<not> spec_delay_ok delay then Some (''step_time'', delay)
      else None)"

text \<open>
  A rejected call: it returns, it neither commands an angle nor sleeps, and it prints
  exactly one line, the error line of one of its four parameters with that
  parameter's value.
\<close>

definition rejected :: "pynum \<Rightarrow> pynum \<Rightarrow> pynum \<Rightarrow> pynum \<Rightarrow> run \<Rightarrow> bool" where
  "rejected start stop step delay r =
     (snd r = Returned \<and> actions (fst r) = [] \<and>
      (case printed (fst r) of
         [l] \<Rightarrow> l \<in> set [error_line ''start_angle'' start, error_line ''stop_angle'' stop,
                         error_line ''step_angle'' step, error_line ''step_time'' delay]
       | _ \<Rightarrow> False))"

section \<open>Traces\<close>

lemma commanded_append: "commanded (xs @ ys) = commanded xs @ commanded ys"
  by (induction xs rule: commanded.induct) simp_all

lemma printed_append: "printed (xs @ ys) = printed xs @ printed ys"
  by (induction xs rule: printed.induct) simp_all

lemma actions_append: "actions (xs @ ys) = actions xs @ actions ys"
  by (induction xs rule: actions.induct) simp_all

lemma commanded_say: "commanded (say d l) = []"
  by (simp add: say_def)

lemma actions_say: "actions (say d l) = []"
  by (simp add: say_def)

lemma printed_say: "printed (say d l) = (if d then [l] else [])"
  by (simp add: say_def)

lemma commanded_sweep_loop: "commanded (sweep_loop d t angles) = angles"
  by (induction angles) (simp_all add: commanded_append commanded_say)

lemma actions_sweep_loop: "actions (sweep_loop d t angles) = paced t angles"
  by (induction angles) (simp_all add: actions_append actions_say)

lemma printed_sweep_loop_quiet: "printed (sweep_loop False t angles) = []"
  by (induction angles) (simp_all add: printed_append printed_say)

lemma commanded_actions: "commanded (actions es) = commanded es"
  by (induction es rule: actions.induct) simp_all

section \<open>The angles of a range\<close>

lemma range_up_first:
  "0 < step \<Longrightarrow> i < stop \<Longrightarrow> range_up i stop step = i # range_up (i + step) stop step"
  by (subst range_up.simps) simp

lemma range_up_done: "\<not> (0 < step \<and> i < stop) \<Longrightarrow> range_up i stop step = []"
  by (subst range_up.simps) simp

lemma range_down_first:
  "step < 0 \<Longrightarrow> stop < i \<Longrightarrow> range_down i stop step = i # range_down (i + step) stop step"
  by (subst range_down.simps) simp

lemma range_down_done: "\<not> (step < 0 \<and> stop < i) \<Longrightarrow> range_down i stop step = []"
  by (subst range_down.simps) simp

lemma range_up_nth:
  "k < length (range_up i stop step) \<Longrightarrow> range_up i stop step ! k = i + int k * step"
proof (induction i stop step arbitrary: k rule: range_up.induct)
  case (1 i stop step)
  show ?case
  proof (cases "0 < step \<and> i < stop")
    case True
    then have unf: "range_up i stop step = i # range_up (i + step) stop step"
      by (simp add: range_up_first)
    show ?thesis
    proof (cases k)
      case 0
      then show ?thesis by (simp add: unf)
    next
      case (Suc j)
      with "1.prems" unf have "j < length (range_up (i + step) stop step)" by simp
      from "1.IH"[OF True this] Suc show ?thesis
        by (simp add: unf algebra_simps)
    qed
  next
    case False
    with "1.prems" show ?thesis by (simp add: range_up_done)
  qed
qed

lemma range_up_set: "x \<in> set (range_up i stop step) \<Longrightarrow> i \<le> x \<and> x < stop"
proof (induction i stop step rule: range_up.induct)
  case (1 i stop step)
  show ?case
  proof (cases "0 < step \<and> i < stop")
    case True
    with "1.prems" have "x = i \<or> x \<in> set (range_up (i + step) stop step)"
      by (simp add: range_up_first)
    then show ?thesis
    proof
      assume "x = i"
      with True show ?thesis by simp
    next
      assume "x \<in> set (range_up (i + step) stop step)"
      from "1.IH"[OF True this] True show ?thesis by simp
    qed
  next
    case False
    with "1.prems" show ?thesis by (simp add: range_up_done)
  qed
qed

lemma range_down_nth:
  "k < length (range_down i stop step) \<Longrightarrow> range_down i stop step ! k = i + int k * step"
proof (induction i stop step arbitrary: k rule: range_down.induct)
  case (1 i stop step)
  show ?case
  proof (cases "step < 0 \<and> stop < i")
    case True
    then have unf: "range_down i stop step = i # range_down (i + step) stop step"
      by (simp add: range_down_first)
    show ?thesis
    proof (cases k)
      case 0
      then show ?thesis by (simp add: unf)
    next
      case (Suc j)
      with "1.prems" unf have "j < length (range_down (i + step) stop step)" by simp
      from "1.IH"[OF True this] Suc show ?thesis
        by (simp add: unf algebra_simps)
    qed
  next
    case False
    with "1.prems" show ?thesis by (simp add: range_down_done)
  qed
qed

lemma range_down_set: "x \<in> set (range_down i stop step) \<Longrightarrow> stop < x \<and> x \<le> i"
proof (induction i stop step rule: range_down.induct)
  case (1 i stop step)
  show ?case
  proof (cases "step < 0 \<and> stop < i")
    case True
    with "1.prems" have "x = i \<or> x \<in> set (range_down (i + step) stop step)"
      by (simp add: range_down_first)
    then show ?thesis
    proof
      assume "x = i"
      with True show ?thesis by simp
    next
      assume "x \<in> set (range_down (i + step) stop step)"
      from "1.IH"[OF True this] True show ?thesis by simp
    qed
  next
    case False
    with "1.prems" show ?thesis by (simp add: range_down_done)
  qed
qed

section \<open>The checks of \<^verbatim>\<open>servo_sweep\<close> against the specified domains\<close>

lemma val_py_sub: "val (py_sub a b) = val a - val b"
  by (cases a; cases b) simp_all

lemma val_py_abs: "val (py_abs a) = \<bar>val a\<bar>"
  by (cases a) simp_all

lemma whole_of_int: "whole (of_int i)"
  by (simp add: whole_def)

lemma not_int_check:
  "0 \<le> val a \<Longrightarrow> py_ne a (PyInt (py_int a)) = (\<not> whole (val a))"
  by (cases a) (auto simp: py_ne_def whole_def)

lemma angle_check:
  "(py_ne a (PyInt (py_int a)) \<or> py_lt a (PyInt 0) \<or> py_gt a (PyInt 180)) = (\<not> spec_angle_ok a)"
proof (cases "0 \<le> val a")
  case True
  then show ?thesis
    by (auto simp: not_int_check spec_angle_ok_def py_lt_def py_gt_def)
next
  case False
  then show ?thesis
    by (simp add: spec_angle_ok_def py_lt_def)
qed

lemma step_check:
  "(py_ne st (PyInt (py_int st)) \<or> py_lt st (PyInt 1) \<or> py_gt st (py_abs (py_sub e s)))
     = (\<not> spec_step_ok s e st)"
proof (cases "1 \<le> val st")
  case True
  then have "0 \<le> val st" by simp
  then show ?thesis using True
    by (auto simp: not_int_check spec_step_ok_def py_lt_def py_gt_def val_py_sub val_py_abs)
next
  case False
  then show ?thesis
    by (simp add: spec_step_ok_def py_lt_def)
qed

lemma delay_check: "py_lt t (PyInt 0) = (\<not> spec_delay_ok t)"
  by (auto simp: py_lt_def spec_delay_ok_def)

lemma servo_sweep_by_spec:
  "servo_sweep d s e st t =
     (case spec_first_invalid s e st t of
        Some (n, v) \<Rightarrow> ([Print (error_line n v)], Returned)
      | None \<Rightarrow>
          run_loop d t (say d (sweep_line s e st t))
            (if py_lt s e then py_range s (py_add e (PyInt 1)) st
             else py_range s (py_sub e (PyInt 1)) (py_neg st)))"
proof -
  note a = angle_check [of s] angle_check [of e] step_check [of st e s] delay_check [of t]
  show ?thesis
    unfolding servo_sweep_def spec_first_invalid_def a by simp
qed

section \<open>A sweep over valid integer parameters\<close>

lemma spec_valid_ints:
  assumes "0 \<le> s" "s \<le> 180" "0 \<le> e" "e \<le> 180" "1 \<le> st" "st \<le> \<bar>e - s\<bar>" "0 \<le> val t"
  shows "spec_first_invalid (PyInt s) (PyInt e) (PyInt st) t = None"
proof -
  have "(of_int st :: rat) \<le> of_int \<bar>e - s\<bar>"
    using assms(6) by (simp only: of_int_le_iff)
  then have "(of_int st :: rat) \<le> \<bar>of_int e - of_int s\<bar>" by simp
  with assms show ?thesis
    by (simp add: spec_first_invalid_def spec_angle_ok_def spec_step_ok_def spec_delay_ok_def
        whole_of_int)
qed

lemma servo_sweep_ints:
  assumes "0 \<le> s" "s \<le> 180" "0 \<le> e" "e \<le> 180" "1 \<le> st" "st \<le> \<bar>e - s\<bar>" "0 \<le> val t"
  shows "servo_sweep d (PyInt s) (PyInt e) (PyInt st) t =
           (say d (sweep_line (PyInt s) (PyInt e) (PyInt st) t) @
            sweep_loop d t (if s < e then range_up s (e + 1) st else range_down s (e - 1) (- st)),
            Returned)"
  using assms(5)
  by (simp add: servo_sweep_by_spec spec_valid_ints [OF assms] run_loop_def py_range_def py_lt_def)

lemma sweep_commanded_ints:
  assumes "0 \<le> s" "s \<le> 180" "0 \<le> e" "e \<le> 180" "1 \<le> st" "st \<le> \<bar>e - s\<bar>" "0 \<le> val t"
  shows "commanded (fst (servo_sweep d (PyInt s) (PyInt e) (PyInt st) t)) =
           (if s < e then range_up s (e + 1) st else range_down s (e - 1) (- st))"
  by (simp add: servo_sweep_ints [OF assms] commanded_append commanded_say commanded_sweep_loop)

lemma range_up_sorted: "0 < step \<Longrightarrow> sorted_wrt (<) (range_up i stop step)"
  by (simp add: sorted_wrt_iff_nth_less range_up_nth)

lemma range_down_sorted: "step < 0 \<Longrightarrow> sorted_wrt (>) (range_down i stop step)"
  by (simp add: sorted_wrt_iff_nth_less range_down_nth)

lemma range_up_step:
  "Suc k < length (range_up i stop step) \<Longrightarrow>
     range_up i stop step ! Suc k = range_up i stop step ! k + step"
  by (simp add: range_up_nth algebra_simps)

lemma range_down_step:
  "Suc k < length (range_down i stop step) \<Longrightarrow>
     range_down i stop step ! Suc k = range_down i stop step ! k + step"
  by (simp add: range_down_nth algebra_simps)

section \<open>What a run prints and commands\<close>

lemma printed_sweep_loop_debug: "printed (sweep_loop True t angles) = map setting_line angles"
  by (induction angles) (simp_all add: printed_append printed_say)

lemma run_loop_commanded:
  "commanded (fst (run_loop d t (say d l) r)) = (case r of Inl x \<Rightarrow> [] | Inr angles \<Rightarrow> angles)"
  by (simp add: run_loop_def commanded_append commanded_say commanded_sweep_loop split: sum.splits)

lemma run_loop_printed_quiet: "printed (fst (run_loop False t (say False l) r)) = []"
  by (simp add: run_loop_def printed_append printed_say printed_sweep_loop_quiet split: sum.splits)

lemma run_loop_printed_debug:
  "printed (fst (run_loop True t (say True l) r)) =
     l # map setting_line (commanded (fst (run_loop True t (say True l) r)))"
  by (simp add: run_loop_def printed_append printed_say printed_sweep_loop_debug commanded_append
      commanded_say commanded_sweep_loop split: sum.splits)

lemma spec_first_invalid_cases:
  "spec_first_invalid s e st t = None \<Longrightarrow>
     spec_angle_ok s \<and> spec_angle_ok e \<and> spec_step_ok s e st \<and> spec_delay_ok t"
  by (simp add: spec_first_invalid_def split: if_splits)

lemma rejected_by_spec:
  "spec_first_invalid s e st t \<noteq> None \<Longrightarrow> rejected s e st t (servo_sweep d s e st t)"
  by (auto simp: servo_sweep_by_spec rejected_def spec_first_invalid_def)

section \<open>When \<^verbatim>\<open>servo_sweep\<close> raises\<close>

text \<open>
  A call raises exactly when every check passes and one of the two angles or the step
  is a float: \<^verbatim>\<open>range\<close> then refuses its argument, before the first angle is
  commanded. The step time never makes the call raise.
\<close>

lemma servo_sweep_raises_iff:
  "(snd (servo_sweep d s e st t) \<noteq> Returned) =
     (spec_first_invalid s e st t = None \<and> (is_float s \<or> is_float e \<or> is_float st))"
proof (cases "spec_first_invalid s e st t")
  case (Some p)
  then show ?thesis by (cases p) (simp add: servo_sweep_by_spec)
next
  case None
  then have "1 \<le> val st"
    by (simp add: spec_first_invalid_def spec_step_ok_def split: if_splits)
  then show ?thesis
    using None
    by (cases s; cases e; cases st)
       (simp_all add: servo_sweep_by_spec run_loop_def py_range_def)
qed

lemma servo_sweep_raises_TypeError:
  "snd (servo_sweep d s e st t) = Raised x \<Longrightarrow> x = TypeError"
proof (cases "spec_first_invalid s e st t")
  case (Some p)
  assume "snd (servo_sweep d s e st t) = Raised x"
  with Some show ?thesis by (cases p) (simp add: servo_sweep_by_spec)
next
  case None
  assume r: "snd (servo_sweep d s e st t) = Raised x"
  from None have "1 \<le> val st"
    by (simp add: spec_first_invalid_def spec_step_ok_def split: if_splits)
  then show ?thesis
    using None r
    by (cases s; cases e; cases st)
       (simp_all add: servo_sweep_by_spec run_loop_def py_range_def split: if_splits)
qed

lemma servo_sweep_float_no_action:
  "is_float s \<or> is_float e \<or> is_float st \<Longrightarrow> actions (fst (servo_sweep d s e st t)) = []"
proof (cases "spec_first_invalid s e st t")
  case (Some p)
  then show ?thesis by (cases p) (simp add: servo_sweep_by_spec)
next
  case None
  assume "is_float s \<or> is_float e \<or> is_float st"
  then show ?thesis
    using None
    by (cases s; cases e; cases st)
       (simp_all add: servo_sweep_by_spec run_loop_def py_range_def actions_say)
qed

section \<open>Bounds of the commanded angles\<close>

lemma sweep_commanded_bounds:
  assumes "a \<in> set (commanded (fst (servo_sweep d s e st t)))"
  shows "0 \<le> a \<and> a \<le> 180 \<and> min (val s) (val e) \<le> of_int a \<and> of_int a \<le> max (val s) (val e)"
proof (cases "spec_first_invalid s e st t")
  case (Some p)
  with assms show ?thesis by (cases p) (simp add: servo_sweep_by_spec)
next
  case None
  note ok = spec_first_invalid_cases [OF None]
  show ?thesis
  proof (cases "is_float s \<or> is_float e \<or> is_float st")
    case True
    from servo_sweep_float_no_action [OF True, of d t]
    have "commanded (actions (fst (servo_sweep d s e st t))) = []" by simp
    with assms show ?thesis by (simp add: commanded_actions)
  next
    case False
    then obtain x y z where v: "s = PyInt x" "e = PyInt y" "st = PyInt z"
      by (cases s; cases e; cases st) simp_all
    from ok v have dom: "0 \<le> x" "x \<le> 180" "0 \<le> y" "y \<le> 180" "1 \<le> z"
      by (simp_all add: spec_angle_ok_def spec_step_ok_def)
    have c: "commanded (fst (servo_sweep d s e st t)) =
        (if x < y then range_up x (y + 1) z else range_down x (y - 1) (- z))"
      using None dom(5)
      by (simp add: servo_sweep_by_spec v run_loop_commanded py_range_def py_lt_def)
    show ?thesis
    proof (cases "x < y")
      case True
      with assms c have "a \<in> set (range_up x (y + 1) z)" by simp
      from range_up_set [OF this] dom True show ?thesis by (simp add: v)
    next
      case False
      with assms c have "a \<in> set (range_down x (y - 1) (- z))" by simp
      from range_down_set [OF this] dom False show ?thesis by (simp add: v)
    qed
  qed
qed

lemma then_do_commanded:
  "set (commanded (fst (then_do p q))) \<subseteq> set (commanded (fst p)) \<union> set (commanded (fst q))"
  by (cases "snd p") (simp_all add: then_do_def commanded_append)

lemma main_rounds_commanded:
  "set (commanded (main_rounds n d)) \<subseteq> set (commanded (basic_operations d))"
  by (induction n) (simp_all add: commanded_append)

lemma basic_operations_commanded: "commanded (basic_operations d) = [90, 0, 90, 180]"
  by (simp add: basic_operations_def commanded_append commanded_say)

lemma sweep_operations_commanded:
  assumes "a \<in> set (commanded (fst (sweep_operations d)))"
  shows "0 \<le> a \<and> a \<le> 180"
proof -
  have "a \<in> set (commanded (fst (servo_sweep d (PyInt 0) (PyInt 180) default_step_angle default_step_time)))
      \<or> a \<in> set (commanded (fst (servo_sweep d (PyInt 180) (PyInt 0) default_step_angle default_step_time)))
      \<or> a \<in> set (commanded (fst (servo_sweep d (PyInt 45) (PyInt 135) (PyInt 15) (PyInt 1))))
      \<or> a \<in> set (commanded (fst (servo_sweep d (PyInt 180) (PyInt 0) (PyInt 45) (PyInt 1))))"
    using assms then_do_commanded unfolding sweep_operations_def sleep5_def
    by (fastforce simp: then_do_def commanded_append split: outcome.splits)
  then show ?thesis using sweep_commanded_bounds by blast
qed

section \<open>The sweeps of \<^verbatim>\<open>sweep_operations\<close>\<close>

lemma range_180_0_45: "range_down 180 (- 1) (- 45) = [180, 135, 90, 45, 0]"
  by (simp add: range_down_first range_down_done)

lemma sweep_180_0_45:
  "servo_sweep d (PyInt 180) (PyInt 0) (PyInt 45) (PyInt 1) =
     (say d (sweep_line (PyInt 180) (PyInt 0) (PyInt 45) (PyInt 1)) @
      sweep_loop d (PyInt 1) [180, 135, 90, 45, 0], Returned)"
  by (simp add: servo_sweep_ints range_180_0_45)

lemma range_45_135_15: "range_up 45 136 15 = [45, 60, 75, 90, 105, 120, 135]"
  by (simp add: range_up_first range_up_done)

lemma sweep_45_135_15:
  "servo_sweep d (PyInt 45) (PyInt 135) (PyInt 15) (PyInt 1) =
     (say d (sweep_line (PyInt 45) (PyInt 135) (PyInt 15) (PyInt 1)) @
      sweep_loop d (PyInt 1) [45, 60, 75, 90, 105, 120, 135], Returned)"
  by (simp add: servo_sweep_ints range_45_135_15)

section \<open>The claims\<close>

text \<open>
  C1, as amended. For every integer \<open>a\<close> in 0..180 the call
  \<^verbatim>\<open>servo_sweep(a, a, 1, 0)\<close> is rejected by the check of the step angle, because
  the step 1 exceeds the distance 0 between the two angles: it prints the error line of
  \<^verbatim>\<open>step_angle\<close>, returns, and commands no angle.
\<close>

theorem sweep_same_angle_rejected:
  "0 \<le> a \<Longrightarrow> a \<le> 180 \<Longrightarrow>
     servo_sweep d (PyInt a) (PyInt a) (PyInt 1) (PyInt 0) =
       ([Print (error_line ''step_angle'' (PyInt 1))], Returned) \<and>
     commanded (fst (servo_sweep d (PyInt a) (PyInt a) (PyInt 1) (PyInt 0))) = []"
  by (simp add: servo_sweep_def py_ne_def py_lt_def py_gt_def)

theorem sweep_same_angle_rejected_witness:
  "servo_sweep True (PyInt 90) (PyInt 90) (PyInt 1) (PyInt 0) =
     ([Print (error_line ''step_angle'' (PyInt 1))], Returned) \<and>
   commanded (fst (servo_sweep True (PyInt 90) (PyInt 90) (PyInt 1) (PyInt 0))) = []"
  using sweep_same_angle_rejected [of 90 True] by simp

text \<open>
  The claim as written, one commanded angle \<open>a\<close>, fails at \<open>a = 90\<close>.
\<close>

theorem sweep_same_angle_counterexample:
  "commanded (fst (servo_sweep True (PyInt 90) (PyInt 90) (PyInt 1) (PyInt 0))) \<noteq> [90]"
  by (simp add: servo_sweep_def py_ne_def py_lt_def py_gt_def)

text \<open>
  C2, as amended. The call \<^verbatim>\<open>servo_sweep(180, 0, 45, 1)\<close> commands exactly the
  angles 180, 135, 90, 45, 0 and returns: the last commanded angle is the stop angle 0,
  since the range of the decreasing branch ends at \<^verbatim>\<open>stop_angle - 1\<close>.
\<close>

theorem sweep_180_0_45_reaches_stop:
  "commanded (fst (servo_sweep d (PyInt 180) (PyInt 0) (PyInt 45) (PyInt 1))) =
     [180, 135, 90, 45, 0] \<and>
   last (commanded (fst (servo_sweep d (PyInt 180) (PyInt 0) (PyInt 45) (PyInt 1)))) = 0 \<and>
   snd (servo_sweep d (PyInt 180) (PyInt 0) (PyInt 45) (PyInt 1)) = Returned"
  by (simp add: sweep_180_0_45 commanded_append commanded_say commanded_sweep_loop)

text \<open>
  The claim as written, the sequence 180, 135, 90, 45 that stops short of 0, fails.
\<close>

theorem sweep_180_0_45_counterexample:
  "commanded (fst (servo_sweep True (PyInt 180) (PyInt 0) (PyInt 45) (PyInt 1))) \<noteq>
     [180, 135, 90, 45]"
  by (simp add: sweep_180_0_45 commanded_append commanded_say commanded_sweep_loop)

text \<open>
  C3. For every valid request (integer angles in 0..180, an integer step from 1 to the
  distance between them, a delay that is not negative) with the start below the stop,
  the commanded angles are strictly increasing, each is its predecessor plus the step,
  the first is the start angle and all lie between start and stop; with the start
  above the stop they are strictly decreasing, each is its predecessor minus the step,
  the first is the start angle and all lie between stop and start.
\<close>

theorem sweep_monotone:
  assumes "0 \<le> s" "s \<le> 180" "0 \<le> e" "e \<le> 180" "1 \<le> st" "st \<le> \<bar>e - s\<bar>" "0 \<le> val t"
  shows "(s < e \<longrightarrow>
            (let xs = commanded (fst (servo_sweep d (PyInt s) (PyInt e) (PyInt st) t)) in
               xs \<noteq> [] \<and> hd xs = s \<and> sorted_wrt (<) xs \<and>
               (\<forall>k. Suc k < length xs \<longrightarrow> xs ! Suc k = xs ! k + st) \<and>
               (\<forall>x \<in> set xs. s \<le> x \<and> x \<le> e))) \<and>
         (e < s \<longrightarrow>
            (let xs = commanded (fst (servo_sweep d (PyInt s) (PyInt e) (PyInt st) t)) in
               xs \<noteq> [] \<and> hd xs = s \<and> sorted_wrt (>) xs \<and>
               (\<forall>k. Suc k < length xs \<longrightarrow> xs ! Suc k = xs ! k - st) \<and>
               (\<forall>x \<in> set xs. e \<le> x \<and> x \<le> s)))"
proof (intro conjI impI)
  assume up: "s < e"
  define xs where "xs = range_up s (e + 1) st"
  have c: "commanded (fst (servo_sweep d (PyInt s) (PyInt e) (PyInt st) t)) = xs"
    using up by (simp add: sweep_commanded_ints [OF assms] xs_def)
  have first: "xs = s # range_up (s + st) (e + 1) st"
    unfolding xs_def using up assms(5) by (simp add: range_up_first)
  have inc: "sorted_wrt (<) xs"
    unfolding xs_def using assms(5) by (simp add: range_up_sorted)
  have steps: "\<forall>k. Suc k < length xs \<longrightarrow> xs ! Suc k = xs ! k + st"
    unfolding xs_def by (simp add: range_up_step)
  have bounds: "\<forall>x \<in> set xs. s \<le> x \<and> x \<le> e"
    unfolding xs_def using range_up_set [of _ s "e + 1" st] by fastforce
  have "xs \<noteq> []" "hd xs = s" using first by simp_all
  with inc steps bounds
  show "let xs = commanded (fst (servo_sweep d (PyInt s) (PyInt e) (PyInt st) t)) in
          xs \<noteq> [] \<and> hd xs = s \<and> sorted_wrt (<) xs \<and>
          (\<forall>k. Suc k < length xs \<longrightarrow> xs ! Suc k = xs ! k + st) \<and>
          (\<forall>x \<in> set xs. s \<le> x \<and> x \<le> e)"
    unfolding c Let_def by blast
next
  assume down: "e < s"
  define xs where "xs = range_down s (e - 1) (- st)"
  have c: "commanded (fst (servo_sweep d (PyInt s) (PyInt e) (PyInt st) t)) = xs"
    using down by (simp add: sweep_commanded_ints [OF assms] xs_def)
  have first: "xs = s # range_down (s + - st) (e - 1) (- st)"
    unfolding xs_def using down assms(5) by (simp add: range_down_first)
  have dec: "sorted_wrt (>) xs"
    unfolding xs_def using assms(5) by (simp add: range_down_sorted)
  have steps: "\<forall>k. Suc k < length xs \<longrightarrow> xs ! Suc k = xs ! k - st"
    unfolding xs_def using range_down_step [of _ s "e - 1" "- st"] by simp
  have bounds: "\<forall>x \<in> set xs. e \<le> x \<and> x \<le> s"
    unfolding xs_def using range_down_set [of _ s "e - 1" "- st"] by fastforce
  have "xs \<noteq> []" "hd xs = s" using first by simp_all
  with dec steps bounds
  show "let xs = commanded (fst (servo_sweep d (PyInt s) (PyInt e) (PyInt st) t)) in
          xs \<noteq> [] \<and> hd xs = s \<and> sorted_wrt (>) xs \<and>
          (\<forall>k. Suc k < length xs \<longrightarrow> xs ! Suc k = xs ! k - st) \<and>
          (\<forall>x \<in> set xs. e \<le> x \<and> x \<le> s)"
    unfolding c Let_def by blast
qed

theorem sweep_monotone_witness:
  "commanded (fst (servo_sweep True (PyInt 0) (PyInt 10) (PyInt 3) (PyInt 0))) = [0, 3, 6, 9] \<and>
   sorted_wrt (<) (commanded (fst (servo_sweep True (PyInt 0) (PyInt 10) (PyInt 3) (PyInt 0)))) \<and>
   commanded (fst (servo_sweep True (PyInt 10) (PyInt 0) (PyInt 3) (PyInt 0))) = [10, 7, 4, 1] \<and>
   sorted_wrt (>) (commanded (fst (servo_sweep True (PyInt 10) (PyInt 0) (PyInt 3) (PyInt 0))))"
proof -
  have h: "(0::int) \<le> 0" "(0::int) \<le> 180" "(0::int) \<le> 10" "(10::int) \<le> 180" "(1::int) \<le> 3"
    "(3::int) \<le> \<bar>10 - 0\<bar>" "(3::int) \<le> \<bar>0 - 10\<bar>" "0 \<le> val (PyInt 0)"
    by simp_all
  have up: "commanded (fst (servo_sweep True (PyInt 0) (PyInt 10) (PyInt 3) (PyInt 0))) = [0, 3, 6, 9]"
    by (simp add: sweep_commanded_ints [OF h(1,2,3,4,5,6,8)] range_up_first range_up_done)
  have down: "commanded (fst (servo_sweep True (PyInt 10) (PyInt 0) (PyInt 3) (PyInt 0))) = [10, 7, 4, 1]"
    by (simp add: sweep_commanded_ints [OF h(3,4,1,2,5,7,8)] range_down_first range_down_done)
  from sweep_monotone [OF h(1,2,3,4,5,6,8), of True]
  have a: "sorted_wrt (<) (commanded (fst (servo_sweep True (PyInt 0) (PyInt 10) (PyInt 3) (PyInt 0))))"
    by (simp add: Let_def)
  from sweep_monotone [OF h(3,4,1,2,5,7,8), of True]
  have b: "sorted_wrt (>) (commanded (fst (servo_sweep True (PyInt 10) (PyInt 0) (PyInt 3) (PyInt 0))))"
    by (simp add: Let_def)
  from up down a b show ?thesis by blast
qed

text \<open>
  C4. When at least one of the four parameters is outside its specified domain, the
  call prints the error line of the first such parameter in the order start, stop, step,
  delay, with the parameter's name and value, and returns; it neither commands an
  angle nor sleeps. A parameter counts as a whole number by its value (no fractional
  degrees), so \<^verbatim>\<open>90.0\<close> is inside the domain of an angle.
\<close>

theorem sweep_invalid_no_effect:
  "\<not> (spec_angle_ok s \<and> spec_angle_ok e \<and> spec_step_ok s e st \<and> spec_delay_ok t) \<Longrightarrow>
     servo_sweep d s e st t =
       (if \<not> spec_angle_ok s then ([Print (error_line ''start_angle'' s)], Returned)
        else if \<not> spec_angle_ok e then ([Print (error_line ''stop_angle'' e)], Returned)
        else if \<not> spec_step_ok s e st then ([Print (error_line ''step_angle'' st)], Returned)
        else ([Print (error_line ''step_time'' t)], Returned)) \<and>
     actions (fst (servo_sweep d s e st t)) = []"
  by (auto simp: servo_sweep_by_spec spec_first_invalid_def)

theorem sweep_invalid_no_effect_witness:
  "servo_sweep True (PyInt 200) (PyInt 300) (PyInt 0) (PyFloat (- 1)) =
     ([Print (error_line ''start_angle'' (PyInt 200))], Returned) \<and>
   servo_sweep True (PyInt 10) (PyInt 300) (PyInt 0) (PyFloat (- 1)) =
     ([Print (error_line ''stop_angle'' (PyInt 300))], Returned) \<and>
   servo_sweep True (PyInt 10) (PyInt 20) (PyInt 0) (PyFloat (- 1)) =
     ([Print (error_line ''step_angle'' (PyInt 0))], Returned) \<and>
   servo_sweep True (PyInt 10) (PyInt 20) (PyInt 5) (PyFloat (- 1)) =
     ([Print (error_line ''step_time'' (PyFloat (- 1)))], Returned)"
proof -
  have a: "servo_sweep True (PyInt 200) (PyInt 300) (PyInt 0) (PyFloat (- 1)) =
     ([Print (error_line ''start_angle'' (PyInt 200))], Returned)"
    using sweep_invalid_no_effect [of "PyInt 200" "PyInt 300" "PyInt 0" "PyFloat (- 1)" True]
    by (simp add: spec_angle_ok_def)
  have b: "servo_sweep True (PyInt 10) (PyInt 300) (PyInt 0) (PyFloat (- 1)) =
     ([Print (error_line ''stop_angle'' (PyInt 300))], Returned)"
    using sweep_invalid_no_effect [of "PyInt 10" "PyInt 300" "PyInt 0" "PyFloat (- 1)" True]
    by (simp add: spec_angle_ok_def whole_def)
  have c: "servo_sweep True (PyInt 10) (PyInt 20) (PyInt 0) (PyFloat (- 1)) =
     ([Print (error_line ''step_angle'' (PyInt 0))], Returned)"
    using sweep_invalid_no_effect [of "PyInt 10" "PyInt 20" "PyInt 0" "PyFloat (- 1)" True]
    by (simp add: spec_angle_ok_def spec_step_ok_def whole_def)
  have d: "servo_sweep True (PyInt 10) (PyInt 20) (PyInt 5) (PyFloat (- 1)) =
     ([Print (error_line ''step_time'' (PyFloat (- 1)))], Returned)"
    using sweep_invalid_no_effect [of "PyInt 10" "PyInt 20" "PyInt 5" "PyFloat (- 1)" True]
    by (simp add: spec_angle_ok_def spec_step_ok_def spec_delay_ok_def whole_def)
  from a b c d show ?thesis by blast
qed

text \<open>
  C5. A start angle of 181, of -1 or of 90.5 is rejected, whatever the other
  parameters are; so are a step of 0, a step greater than the distance between the
  angles (as in \<^verbatim>\<open>servo_sweep(0, 10, 20)\<close>) and a negative step time (as \<^verbatim>\<open>-0.1\<close>,
  written here as the double of that literal). A rejected call prints exactly one error
  line, returns, and neither commands an angle nor sleeps.
\<close>

theorem sweep_rejects_bad_parameters:
  "servo_sweep d (PyInt 181) e st t = ([Print (error_line ''start_angle'' (PyInt 181))], Returned) \<and>
   servo_sweep d (PyInt (- 1)) e st t = ([Print (error_line ''start_angle'' (PyInt (- 1)))], Returned) \<and>
   servo_sweep d (PyFloat (181 / 2)) e st t =
     ([Print (error_line ''start_angle'' (PyFloat (181 / 2)))], Returned) \<and>
   rejected s e (PyInt 0) t (servo_sweep d s e (PyInt 0) t) \<and>
   (\<bar>val e - val s\<bar> < val st \<longrightarrow> rejected s e st t (servo_sweep d s e st t)) \<and>
   servo_sweep d (PyInt 0) (PyInt 10) (PyInt 20) default_step_time =
     ([Print (error_line ''step_angle'' (PyInt 20))], Returned) \<and>
   (val t < 0 \<longrightarrow> rejected s e st t (servo_sweep d s e st t)) \<and>
   servo_sweep d (PyInt 0) (PyInt 10) (PyInt 1)
       (PyFloat (- (3602879701896397 / 36028797018963968))) =
     ([Print (error_line ''step_time'' (PyFloat (- (3602879701896397 / 36028797018963968))))],
      Returned)"
proof (intro conjI impI)
  show "servo_sweep d (PyInt 181) e st t =
      ([Print (error_line ''start_angle'' (PyInt 181))], Returned)"
    by (simp add: servo_sweep_def py_gt_def)
  show "servo_sweep d (PyInt (- 1)) e st t =
      ([Print (error_line ''start_angle'' (PyInt (- 1)))], Returned)"
    by (simp add: servo_sweep_def py_lt_def)
  show "servo_sweep d (PyFloat (181 / 2)) e st t =
      ([Print (error_line ''start_angle'' (PyFloat (181 / 2)))], Returned)"
  proof -
    have "\<lfloor>181 / 2 :: rat\<rfloor> = 90" by (simp add: floor_eq_iff)
    then have "py_ne (PyFloat (181 / 2)) (PyInt (py_int (PyFloat (181 / 2))))"
      by (simp add: py_ne_def)
    then show ?thesis by (simp add: servo_sweep_def)
  qed
  show "rejected s e (PyInt 0) t (servo_sweep d s e (PyInt 0) t)"
    by (rule rejected_by_spec) (simp add: spec_first_invalid_def spec_step_ok_def)
  show "rejected s e st t (servo_sweep d s e st t)" if "\<bar>val e - val s\<bar> < val st"
    using that by (intro rejected_by_spec) (simp add: spec_first_invalid_def spec_step_ok_def)
  show "servo_sweep d (PyInt 0) (PyInt 10) (PyInt 20) default_step_time =
      ([Print (error_line ''step_angle'' (PyInt 20))], Returned)"
    by (simp add: servo_sweep_def py_ne_def py_lt_def py_gt_def)
  show "rejected s e st t (servo_sweep d s e st t)" if "val t < 0"
    using that by (intro rejected_by_spec) (simp add: spec_first_invalid_def spec_delay_ok_def)
  show "servo_sweep d (PyInt 0) (PyInt 10) (PyInt 1)
       (PyFloat (- (3602879701896397 / 36028797018963968))) =
     ([Print (error_line ''step_time'' (PyFloat (- (3602879701896397 / 36028797018963968))))],
      Returned)"
    by (simp add: servo_sweep_def py_ne_def py_lt_def py_gt_def)
qed

theorem sweep_rejects_bad_parameters_witness:
  "rejected (PyInt 0) (PyInt 10) (PyInt 20) (PyInt 0)
     (servo_sweep True (PyInt 0) (PyInt 10) (PyInt 20) (PyInt 0)) \<and>
   rejected (PyInt 0) (PyInt 10) (PyInt 1) (PyFloat (- (1 / 2)))
     (servo_sweep True (PyInt 0) (PyInt 10) (PyInt 1) (PyFloat (- (1 / 2)))) \<and>
   servo_sweep True (PyInt 181) (PyInt 0) (PyInt 1) (PyInt 0) =
     ([Print (error_line ''start_angle'' (PyInt 181))], Returned)"
proof -
  have a: "rejected (PyInt 0) (PyInt 10) (PyInt 20) (PyInt 0)
     (servo_sweep True (PyInt 0) (PyInt 10) (PyInt 20) (PyInt 0))"
    using sweep_rejects_bad_parameters
      [of True "PyInt 10" "PyInt 20" "PyInt 0" "PyInt 0"]
    by simp
  have b: "rejected (PyInt 0) (PyInt 10) (PyInt 1) (PyFloat (- (1 / 2)))
     (servo_sweep True (PyInt 0) (PyInt 10) (PyInt 1) (PyFloat (- (1 / 2))))"
    using sweep_rejects_bad_parameters
      [of True "PyInt 10" "PyInt 1" "PyFloat (- (1 / 2))" "PyInt 0"]
    by simp
  have c: "servo_sweep True (PyInt 181) (PyInt 0) (PyInt 1) (PyInt 0) =
     ([Print (error_line ''start_angle'' (PyInt 181))], Returned)"
    using sweep_rejects_bad_parameters
      [of True "PyInt 0" "PyInt 1" "PyInt 0" "PyInt 0"]
    by simp
  from a b c show ?thesis by blast
qed

text \<open>
  C6, as amended. The debug flag gates the tracing only: the description of the sweep
  and the line of each commanded angle. With the flag cleared a call prints nothing
  when every parameter is inside its domain, and the one error line when a parameter is
  not; with the flag set it prints that same error line, or the description followed by
  one line for each commanded angle.
\<close>

theorem sweep_printed_by_flag:
  "printed (fst (servo_sweep False s e st t)) =
     (case spec_first_invalid s e st t of
        Some (n, v) \<Rightarrow> [error_line n v]
      | None \<Rightarrow> []) \<and>
   printed (fst (servo_sweep True s e st t)) =
     (case spec_first_invalid s e st t of
        Some (n, v) \<Rightarrow> [error_line n v]
      | None \<Rightarrow> sweep_line s e st t #
                map setting_line (commanded (fst (servo_sweep True s e st t))))"
proof (cases "spec_first_invalid s e st t")
  case (Some p)
  then show ?thesis by (cases p) (simp add: servo_sweep_by_spec)
next
  case None
  then show ?thesis
    by (simp add: servo_sweep_by_spec run_loop_printed_quiet run_loop_printed_debug)
qed

text \<open>
  The claim as written, no output at all for an invalid parameter when the flag is
  cleared, fails for a start angle of 181.
\<close>

theorem sweep_error_printed_without_debug_counterexample:
  "printed (fst (servo_sweep False (PyInt 181) (PyInt 0) (PyInt 1) (PyInt 0))) \<noteq> []"
  by (simp add: servo_sweep_def py_gt_def)

text \<open>
  C7. The claim is that no input makes the sweep raise. The call
  \<^verbatim>\<open>servo_sweep(90.0, 100, 1, 0)\<close> passes every check, since \<^verbatim>\<open>90.0 == int(90.0)\<close>,
  prints the description of the sweep and then raises TypeError from
  \<^verbatim>\<open>range(90.0, 101, 1)\<close>.
\<close>

theorem sweep_whole_float_raises:
  "servo_sweep True (PyFloat 90) (PyInt 100) (PyInt 1) (PyInt 0) =
     ([Print (sweep_line (PyFloat 90) (PyInt 100) (PyInt 1) (PyInt 0))], Raised TypeError)"
  by (simp add: servo_sweep_def py_ne_def py_lt_def py_gt_def run_loop_def py_range_def say_def)

text \<open>
  C8. The call \<^verbatim>\<open>servo_sweep(45, 135, 15, 1)\<close> commands exactly the seven angles
  45, 60, 75, 90, 105, 120, 135, each followed by one \<^verbatim>\<open>sleep(1)\<close>: seven commands
  and seven sleeps, whatever the debug flag is.
\<close>

theorem sweep_45_135_15_paced:
  "commanded (fst (servo_sweep d (PyInt 45) (PyInt 135) (PyInt 15) (PyInt 1))) =
     [45, 60, 75, 90, 105, 120, 135] \<and>
   actions (fst (servo_sweep d (PyInt 45) (PyInt 135) (PyInt 15) (PyInt 1))) =
     [SetAngle 45, Sleep (PyInt 1), SetAngle 60, Sleep (PyInt 1), SetAngle 75, Sleep (PyInt 1),
      SetAngle 90, Sleep (PyInt 1), SetAngle 105, Sleep (PyInt 1), SetAngle 120, Sleep (PyInt 1),
      SetAngle 135, Sleep (PyInt 1)] \<and>
   snd (servo_sweep d (PyInt 45) (PyInt 135) (PyInt 15) (PyInt 1)) = Returned"
  by (simp add: sweep_45_135_15 commanded_append commanded_say commanded_sweep_loop
      actions_append actions_say actions_sweep_loop)

text \<open>
  C9. \<^verbatim>\<open>basic_operations\<close> commands 90, 0, 90, 180 in that order, each followed
  by one \<^verbatim>\<open>sleep(5)\<close>; it checks nothing, and prints only the four lines of its
  tracing when the debug flag is set.
\<close>

theorem basic_operations_sequence:
  "actions (basic_operations d) =
     [SetAngle 90, Sleep (PyInt 5), SetAngle 0, Sleep (PyInt 5),
      SetAngle 90, Sleep (PyInt 5), SetAngle 180, Sleep (PyInt 5)] \<and>
   printed (basic_operations False) = [] \<and>
   printed (basic_operations True) =
     [[Lit ''Setting angle to 90 degrees.''], [Lit ''Setting angle to 0 degrees.''],
      [Lit ''Setting angle to 90 degrees.''], [Lit ''Setting angle to 180 degrees.'']]"
  by (simp add: basic_operations_def actions_append actions_say printed_append printed_say)

text \<open>
  C10. Every angle the program commands lies in 0..180: those of
  \<^verbatim>\<open>basic_operations\<close>, of any number of rounds of \<^verbatim>\<open>main\<close>, of
  \<^verbatim>\<open>sweep_operations\<close>, and of every call of \<^verbatim>\<open>servo_sweep\<close>, where each
  commanded angle also lies between the smaller and the larger of the start and stop
  angles, in both directions and whether or not the step divides the distance.
\<close>

theorem commanded_angles_in_range:
  "(\<forall>a \<in> set (commanded (basic_operations d)). 0 \<le> a \<and> a \<le> 180) \<and>
   (\<forall>a \<in> set (commanded (main_rounds n d)). 0 \<le> a \<and> a \<le> 180) \<and>
   (\<forall>a \<in> set (commanded (fst (sweep_operations d))). 0 \<le> a \<and> a \<le> 180) \<and>
   (\<forall>a \<in> set (commanded (fst (servo_sweep d s e st t))).
      0 \<le> a \<and> a \<le> 180 \<and> min (val s) (val e) \<le> of_int a \<and> of_int a \<le> max (val s) (val e))"
proof (intro conjI ballI)
  fix a assume "a \<in> set (commanded (basic_operations d))"
  then show "0 \<le> a" "a \<le> 180" by (auto simp: basic_operations_commanded)
next
  fix a assume "a \<in> set (commanded (main_rounds n d))"
  with main_rounds_commanded have "a \<in> set (commanded (basic_operations d))" by blast
  then show "0 \<le> a" "a \<le> 180" by (auto simp: basic_operations_commanded)
next
  fix a assume "a \<in> set (commanded (fst (sweep_operations d)))"
  from sweep_operations_commanded [OF this] show "0 \<le> a" "a \<le> 180" by simp_all
next
  fix a assume "a \<in> set (commanded (fst (servo_sweep d s e st t)))"
  from sweep_commanded_bounds [OF this]
  show "0 \<le> a" "a \<le> 180" "min (val s) (val e) \<le> of_int a" "of_int a \<le> max (val s) (val e)"
    by simp_all
qed

theorem commanded_angles_in_range_witness:
  "commanded (fst (servo_sweep True (PyInt 10) (PyInt 0) (PyInt 3) (PyInt 0))) = [10, 7, 4, 1] \<and>
   list_all (\<lambda>a. 0 \<le> a \<and> a \<le> 180 \<and> (0::rat) \<le> of_int a \<and> (of_int a :: rat) \<le> 10)
     (commanded (fst (servo_sweep True (PyInt 10) (PyInt 0) (PyInt 3) (PyInt 0)))) \<and>
   list_all (\<lambda>a. 0 \<le> a \<and> a \<le> 180) (commanded (basic_operations True))"
proof -
  have c: "commanded (fst (servo_sweep True (PyInt 10) (PyInt 0) (PyInt 3) (PyInt 0))) = [10, 7, 4, 1]"
    by (simp add: sweep_commanded_ints range_down_first range_down_done)
  from commanded_angles_in_range [of True 1 "PyInt 10" "PyInt 0" "PyInt 3" "PyInt 0"]
  show ?thesis
    unfolding list_all_iff using c by simp
qed

end
